theory Spec2Isabelle
  imports Main
begin

section \<open>Values, documents and collections\<close>

text \<open>
  The services keep their data in two MongoDB collections of BSON documents and handle
  them as Python dicts. A document is an association list from field names to values, in
  insertion order; a collection is the list of its documents in natural (insertion)
  order. Times are microseconds, as \<open>datetime\<close> and \<open>timedelta\<close> count them.
\<close>

datatype val = Str string | Bool bool | Num int | ObjectId nat | Datetime int | Null

type_synonym document = "(string \<times> val) list"

type_synonym collection = "document list"

record db =
  users_collection :: collection
  assignments_collection :: collection

text \<open>The exceptions of PyJWT that \<open>jwt.decode\<close> raises; all but \<open>InvalidKeyError\<close>
  are subclasses of \<open>InvalidTokenError\<close>.\<close>

datatype jwt_error =
  ExpiredSignatureError | InvalidSignatureError | DecodeError | InvalidTokenError
  | InvalidKeyError

fun is_InvalidTokenError :: "jwt_error \<Rightarrow> bool" where
  "is_InvalidTokenError InvalidKeyError = False"
| "is_InvalidTokenError _ = True"

text \<open>What a service call can raise: an \<open>HTTPException\<close> with its status code and
  detail, or an exception that no handler of the service catches.\<close>

datatype exn =
  HTTPException nat string | KeyError string | TypeError | PyJWTError jwt_error

definition HTTP_400_BAD_REQUEST :: nat where "HTTP_400_BAD_REQUEST = 400"
definition HTTP_401_UNAUTHORIZED :: nat where "HTTP_401_UNAUTHORIZED = 401"
definition HTTP_403_FORBIDDEN :: nat where "HTTP_403_FORBIDDEN = 403"
definition HTTP_404_NOT_FOUND :: nat where "HTTP_404_NOT_FOUND = 404"

fun status_code :: "exn \<Rightarrow> nat option" where
  "status_code (HTTPException c d) = Some c"
| "status_code _ = None"

subsection \<open>Python dicts and truthiness\<close>

fun truthy :: "val \<Rightarrow> bool" where
  "truthy (Str s) = (s \<noteq> [])"
| "truthy (Bool b) = b"
| "truthy (Num n) = (n \<noteq> 0)"
| "truthy (ObjectId i) = True"
| "truthy (Datetime t) = True"
| "truthy Null = False"

text \<open>\<open>d.get(k, default)\<close>, \<open>d[k]\<close> and \<open>d[k] = v\<close>.\<close>

definition dict_get :: "document \<Rightarrow> string \<Rightarrow> val \<Rightarrow> val" where
  "dict_get d k dflt = (case map_of d k of None \<Rightarrow> dflt | Some v \<Rightarrow> v)"

definition dict_item :: "document \<Rightarrow> string \<Rightarrow> exn + val" where
  "dict_item d k = (case map_of d k of None \<Rightarrow> Inl (KeyError k) | Some v \<Rightarrow> Inr v)"

fun dict_set :: "document \<Rightarrow> string \<Rightarrow> val \<Rightarrow> document" where
  "dict_set [] k v = [(k, v)]"
| "dict_set ((k', v') # d) k v = (if k' = k then (k, v) # d else (k', v') # dict_set d k v)"

subsection \<open>The collection operations the services call\<close>

text \<open>An equality filter \<open>{k: v, ...}\<close>: every listed field of the document equals the
  given value; a \<open>null\<close> value also matches a document without the field.\<close>

definition field_matches :: "document \<Rightarrow> string \<times> val \<Rightarrow> bool" where
  "field_matches d kv =
     (case map_of d (fst kv) of None \<Rightarrow> snd kv = Null | Some w \<Rightarrow> w = snd kv)"

definition matches :: "document \<Rightarrow> document \<Rightarrow> bool" where
  "matches q d = list_all (field_matches d) q"

definition find_one :: "document \<Rightarrow> collection \<Rightarrow> document option" where
  "find_one q c = List.find (matches q) c"

definition find_docs :: "document \<Rightarrow> collection \<Rightarrow> collection" where
  "find_docs q c = filter (matches q) c"

fun to_list :: "nat option \<Rightarrow> collection \<Rightarrow> collection" where
  "to_list None c = c"
| "to_list (Some n) c = take n c"

text \<open>\<open>insert_one\<close> stores the document under the identifier the driver generates for
  it (the argument \<open>oid\<close>) and reports that identifier. The documents the services build
  never carry an \<open>_id\<close> of their own.\<close>

definition insert_one :: "document \<Rightarrow> nat \<Rightarrow> collection \<Rightarrow> collection \<times> nat" where
  "insert_one doc oid c = (c @ [(''_id'', ObjectId oid) # doc], oid)"

text \<open>\<open>update_one(q, {"$set": {k: v}})\<close> changes the first matching document and
  reports \<open>matched_count\<close>.\<close>

fun update_one :: "document \<Rightarrow> string \<Rightarrow> val \<Rightarrow> collection \<Rightarrow> collection \<times> nat" where
  "update_one q k v [] = ([], 0)"
| "update_one q k v (d # ds) =
     (if matches q d then (dict_set d k v # ds, 1)
      else (d # fst (update_one q k v ds), snd (update_one q k v ds)))"

section \<open>External collaborators\<close>

text \<open>
  The password context of passlib, the JWT codec of PyJWT with the configured secret and
  algorithm, the \<open>ObjectId\<close> constructor of bson (which raises \<open>InvalidId\<close>, here
  \<open>None\<close>), Python's \<open>str\<close> on a stored value and the setting
  \<open>access_token_expire_minutes\<close> of \<open>app.config\<close> are not part of the sources. The
  services take them as parameters.
\<close>

record lib =
  pwd_hash :: "string \<Rightarrow> string"
  pwd_verify :: "string \<Rightarrow> string \<Rightarrow> bool"
  jwt_encode :: "document \<Rightarrow> string"
  jwt_decode :: "string \<Rightarrow> jwt_error + document"
  ObjectId_parse :: "string \<Rightarrow> nat option"
  py_str :: "val \<Rightarrow> string"
  ACCESS_TOKEN_EXPIRE_MINUTES :: int

section \<open>app/auth.py\<close>

definition timedelta_minutes :: "int \<Rightarrow> int" where
  "timedelta_minutes m = m * 60000000"

text \<open>\<open>pwd_context.verify\<close> wants the stored hash to be a string.\<close>

fun verify_password :: "lib \<Rightarrow> string \<Rightarrow> val \<Rightarrow> exn + bool" where
  "verify_password L plain_password (Str hashed_password) =
     Inr (pwd_verify L plain_password hashed_password)"
| "verify_password L plain_password v = Inl TypeError"

definition get_password_hash :: "lib \<Rightarrow> string \<Rightarrow> string" where
  "get_password_hash L password = pwd_hash L password"

text \<open>The payload handed to \<open>jwt.encode\<close>: the data with \<open>exp\<close> set to the current
  time plus \<open>expires_delta or timedelta(minutes=ACCESS_TOKEN_EXPIRE_MINUTES)\<close>; a
  zero \<open>timedelta\<close> is false in Python.\<close>

definition token_payload :: "lib \<Rightarrow> int \<Rightarrow> document \<Rightarrow> int option \<Rightarrow> document" where
  "token_payload L now data expires_delta =
     (let to_encode = data;
          expire = now + (case expires_delta of
                            None \<Rightarrow> timedelta_minutes (ACCESS_TOKEN_EXPIRE_MINUTES L)
                          | Some dt \<Rightarrow> if dt \<noteq> 0 then dt
                                       else timedelta_minutes (ACCESS_TOKEN_EXPIRE_MINUTES L))
      in dict_set to_encode ''exp'' (Datetime expire))"

definition create_access_token :: "lib \<Rightarrow> int \<Rightarrow> document \<Rightarrow> int option \<Rightarrow> string" where
  "create_access_token L now data expires_delta =
     jwt_encode L (token_payload L now data expires_delta)"

text \<open>\<open>decode_access_token\<close> catches \<open>ExpiredSignatureError\<close> and
  \<open>InvalidTokenError\<close>; any other exception of \<open>jwt.decode\<close> leaves the function.\<close>

definition decode_access_token :: "lib \<Rightarrow> string \<Rightarrow> exn + document option" where
  "decode_access_token L token =
     (case jwt_decode L token of
        Inr payload \<Rightarrow> Inr (Some payload)
      | Inl e \<Rightarrow> if e = ExpiredSignatureError then Inr None
                else if is_InvalidTokenError e then Inr None
                else Inl (PyJWTError e))"

section \<open>app/dependencies.py\<close>

definition credentials_exception :: exn where
  "credentials_exception = HTTPException HTTP_401_UNAUTHORIZED ''Could not validate credentials''"

text \<open>Modelled from the spec: \<open>TokenData\<close> of \<open>app/models/token.py\<close> is not among the
  sources; it holds the username taken from the \<open>sub\<close> claim, which may be absent.\<close>

definition TokenData :: "val \<Rightarrow> val" where
  "TokenData username = username"

definition get_current_user :: "lib \<Rightarrow> db \<Rightarrow> string \<Rightarrow> exn + document" where
  "get_current_user L s token =
     (case decode_access_token L token of
        Inl e \<Rightarrow> Inl e
      | Inr None \<Rightarrow> Inl credentials_exception
      | Inr (Some payload) \<Rightarrow>
          if payload = [] then Inl credentials_exception
          else
            (let username = dict_get payload ''sub'' Null;
                 token_data = TokenData username
             in (case find_one [(''username'', token_data)] (users_collection s) of
                   None \<Rightarrow> Inl credentials_exception
                 | Some user \<Rightarrow> if user = [] then Inl credentials_exception else Inr user)))"

definition get_current_active_user :: "document \<Rightarrow> exn + document" where
  "get_current_active_user current_user =
     (if \<not> truthy (dict_get current_user ''is_active'' (Bool True))
      then Inl (HTTPException 400 ''Inactive user'')
      else Inr current_user)"

section \<open>Request schemas\<close>

text \<open>Modelled from the spec: \<open>UserCreate\<close> and \<open>UserLogin\<close> of
  \<open>app/schemas/user_schema.py\<close> are not among the sources; both carry a username and a
  password.\<close>

record UserCreate =
  username :: string
  password :: string

type_synonym UserLogin = UserCreate

record AssignmentCreate =
  userId :: string
  task :: string
  admin :: string

record AssignmentUpdate =
  assignment_id :: string
  status :: string

section \<open>app/services/user_service.py\<close>

definition register_user :: "lib \<Rightarrow> nat \<Rightarrow> db \<Rightarrow> UserCreate \<Rightarrow> (exn + document) \<times> db" where
  "register_user L oid s user =
     (case find_one [(''username'', Str (username user))] (users_collection s) of
        Some (f # existing_user) \<Rightarrow>
          (Inl (HTTPException HTTP_400_BAD_REQUEST ''Username already taken''), s)
      | _ \<Rightarrow>
          let new_user = [(''username'', Str (username user)),
                          (''password'', Str (get_password_hash L (password user))),
                          (''role'', Str ''user'')];
              result = insert_one new_user oid (users_collection s)
          in (Inr [(''id'', Str (py_str L (ObjectId (snd result)))),
                   (''message'', Str ''User registered successfully'')],
              s\<lparr>users_collection := fst result\<rparr>))"

definition invalid_login :: exn where
  "invalid_login = HTTPException HTTP_401_UNAUTHORIZED ''Invalid username or password''"

text \<open>The part of both logins after the lookup: the password check, the token with a
  lifetime of \<open>timedelta(minutes=30)\<close> and the response.\<close>

definition login_found :: "lib \<Rightarrow> int \<Rightarrow> document option \<Rightarrow> string \<Rightarrow> exn + document" where
  "login_found L now found pw =
     (case found of
        None \<Rightarrow> Inl invalid_login
      | Some [] \<Rightarrow> Inl invalid_login
      | Some found_user \<Rightarrow>
         (case dict_item found_user ''password'' of
            Inl e \<Rightarrow> Inl e
          | Inr hashed \<Rightarrow>
             (case verify_password L pw hashed of
                Inl e \<Rightarrow> Inl e
              | Inr False \<Rightarrow> Inl invalid_login
              | Inr True \<Rightarrow>
                 (case dict_item found_user ''username'' of
                    Inl e \<Rightarrow> Inl e
                  | Inr sub \<Rightarrow>
                     let access_token =
                           create_access_token L now [(''sub'', sub)] (Some (timedelta_minutes 30))
                     in (case dict_item found_user ''_id'' of
                           Inl e \<Rightarrow> Inl e
                         | Inr i \<Rightarrow>
                            Inr [(''id'', Str (py_str L i)),
                                 (''username'', sub),
                                 (''access_token'', Str access_token),
                                 (''token_type'', Str ''bearer'')])))))"

definition login_user :: "lib \<Rightarrow> int \<Rightarrow> db \<Rightarrow> UserLogin \<Rightarrow> exn + document" where
  "login_user L now s user =
     login_found L now (find_one [(''username'', Str (username user))] (users_collection s))
       (password user)"

text \<open>A comprehension whose element expression can raise stops at the first exception.\<close>

fun collect :: "('a \<Rightarrow> exn + 'b) \<Rightarrow> 'a list \<Rightarrow> exn + 'b list" where
  "collect f [] = Inr []"
| "collect f (x # xs) =
     (case f x of
        Inl e \<Rightarrow> Inl e
      | Inr y \<Rightarrow> (case collect f xs of Inl e \<Rightarrow> Inl e | Inr ys \<Rightarrow> Inr (y # ys)))"

definition admin_not_found :: "string \<Rightarrow> exn" where
  "admin_not_found name =
     HTTPException HTTP_404_NOT_FOUND (''Admin '' @ [CHR 0x27] @ name @ [CHR 0x27] @ '' not found.'')"

definition upload_assignment ::
  "lib \<Rightarrow> int \<Rightarrow> nat \<Rightarrow> db \<Rightarrow> AssignmentCreate \<Rightarrow> document \<Rightarrow> (exn + document) \<times> db" where
  "upload_assignment L now oid s assignment current_user =
     (case find_one [(''username'', Str (admin assignment))] (users_collection s) of
        None \<Rightarrow> (Inl (admin_not_found (admin assignment)), s)
      | Some [] \<Rightarrow> (Inl (admin_not_found (admin assignment)), s)
      | Some found_admin \<Rightarrow>
         (case dict_item found_admin ''role'' of
            Inl e \<Rightarrow> (Inl e, s)
          | Inr r \<Rightarrow>
             if \<not> r = Str ''admin'' then (Inl (admin_not_found (admin assignment)), s)
             else
              (case dict_item current_user ''_id'' of
                 Inl e \<Rightarrow> (Inl e, s)
               | Inr user_id \<Rightarrow>
                  (case dict_item found_admin ''_id'' of
                     Inl e \<Rightarrow> (Inl e, s)
                   | Inr admin_id \<Rightarrow>
                      (let new_assignment = [(''user_id'', user_id),
                                             (''userId'', Str (userId assignment)),
                                             (''task'', Str (task assignment)),
                                             (''admin_id'', admin_id),
                                             (''admin'', Str (admin assignment)),
                                             (''status'', Str ''pending''),
                                             (''timestamp'', Datetime now)];
                           result = insert_one new_assignment oid (assignments_collection s)
                       in (Inr [(''id'', Str (py_str L (ObjectId (snd result)))),
                                (''message'', Str ''Assignment uploaded successfully'')],
                           s\<lparr>assignments_collection := fst result\<rparr>))))))"

definition admin_entry :: "lib \<Rightarrow> document \<Rightarrow> exn + document" where
  "admin_entry L a =
     (case dict_item a ''_id'' of
        Inl e \<Rightarrow> Inl e
      | Inr i \<Rightarrow>
         (case dict_item a ''username'' of
            Inl e \<Rightarrow> Inl e
          | Inr u \<Rightarrow> Inr [(''id'', Str (py_str L i)), (''username'', u)]))"

definition get_admins :: "lib \<Rightarrow> db \<Rightarrow> exn + string \<times> document list" where
  "get_admins L s =
     (let admins = to_list None (find_docs [(''role'', Str ''admin'')] (users_collection s))
      in if admins = [] then Inl (HTTPException HTTP_404_NOT_FOUND ''No admins found.'')
         else (case collect (admin_entry L) admins of
                 Inl e \<Rightarrow> Inl e
               | Inr admins_list \<Rightarrow> Inr (''admins'', admins_list)))"

section \<open>app/services/admin_service.py\<close>

definition register_admin :: "lib \<Rightarrow> nat \<Rightarrow> db \<Rightarrow> UserCreate \<Rightarrow> (exn + document) \<times> db" where
  "register_admin L oid s user =
     (case find_one [(''username'', Str (username user))] (users_collection s) of
        Some (f # existing_admin) \<Rightarrow>
          (Inl (HTTPException HTTP_400_BAD_REQUEST ''Username already taken''), s)
      | _ \<Rightarrow>
          let new_admin = [(''username'', Str (username user)),
                           (''password'', Str (get_password_hash L (password user))),
                           (''role'', Str ''admin'')];
              result = insert_one new_admin oid (users_collection s)
          in (Inr [(''id'', Str (py_str L (ObjectId (snd result)))),
                   (''message'', Str ''Admin registered successfully'')],
              s\<lparr>users_collection := fst result\<rparr>))"

definition login_admin :: "lib \<Rightarrow> int \<Rightarrow> db \<Rightarrow> UserLogin \<Rightarrow> exn + document" where
  "login_admin L now s user =
     login_found L now
       (find_one [(''username'', Str (username user)), (''role'', Str ''admin'')]
          (users_collection s))
       (password user)"

definition assignment_entry :: "lib \<Rightarrow> document \<Rightarrow> exn + document" where
  "assignment_entry L a =
     (case dict_item a ''_id'' of Inl e \<Rightarrow> Inl e | Inr i \<Rightarrow>
     (case dict_item a ''userId'' of Inl e \<Rightarrow> Inl e | Inr uid \<Rightarrow>
     (case dict_item a ''task'' of Inl e \<Rightarrow> Inl e | Inr t \<Rightarrow>
     (case dict_item a ''admin'' of Inl e \<Rightarrow> Inl e | Inr ad \<Rightarrow>
     (case dict_item a ''status'' of Inl e \<Rightarrow> Inl e | Inr st \<Rightarrow>
     (case dict_item a ''timestamp'' of Inl e \<Rightarrow> Inl e | Inr ts \<Rightarrow>
        Inr [(''id'', Str (py_str L i)), (''userId'', uid), (''task'', t), (''admin'', ad),
             (''status'', st), (''timestamp'', ts)]))))))"

text \<open>\<open>if admin:\<close> on the optional query parameter: \<open>None\<close> and the empty string
  are false. Both branches run \<open>find(q).to_list(length=100)\<close>, with the filter \<open>q\<close>
  on the admin's name or on the caller's identifier.\<close>

definition get_assignments_for_admin ::
  "lib \<Rightarrow> db \<Rightarrow> document \<Rightarrow> string option \<Rightarrow> exn + string \<times> document list" where
  "get_assignments_for_admin L s current_user admin_name =
     (case dict_item current_user ''role'' of
        Inl e \<Rightarrow> Inl e
      | Inr r \<Rightarrow>
         if \<not> r = Str ''admin''
         then Inl (HTTPException HTTP_403_FORBIDDEN ''Not authorized to admin'')
         else
          (case (case admin_name of
                   Some (c # cs) \<Rightarrow> Inr [(''admin'', Str (c # cs))]
                 | _ \<Rightarrow> (case dict_item current_user ''_id'' of
                           Inl e \<Rightarrow> Inl e
                         | Inr i \<Rightarrow> Inr [(''admin_id'', i)])) of
             Inl e \<Rightarrow> Inl e
           | Inr q \<Rightarrow>
              (let assignments = to_list (Some 100) (find_docs q (assignments_collection s))
               in (case collect (assignment_entry L) assignments of
                     Inl e \<Rightarrow> Inl e
                   | Inr entries \<Rightarrow> Inr (''assignments'', entries)))))"

definition update_assignment_status ::
  "lib \<Rightarrow> db \<Rightarrow> AssignmentUpdate \<Rightarrow> document \<Rightarrow> (exn + document) \<times> db" where
  "update_assignment_status L s assignment current_user =
     (case dict_item current_user ''role'' of
        Inl e \<Rightarrow> (Inl e, s)
      | Inr r \<Rightarrow>
         if \<not> r = Str ''admin''
         then (Inl (HTTPException HTTP_403_FORBIDDEN ''Not authorized to accept assignments.''), s)
         else
          (case ObjectId_parse L (assignment_id assignment) of
             None \<Rightarrow> (Inl (HTTPException HTTP_400_BAD_REQUEST ''Invalid assignment ID.''), s)
           | Some object_id \<Rightarrow>
              (let result = update_one [(''_id'', ObjectId object_id)] ''status''
                              (Str (status assignment)) (assignments_collection s);
                   s' = s\<lparr>assignments_collection := fst result\<rparr>
               in if snd result = 0
                  then (Inl (HTTPException HTTP_404_NOT_FOUND ''Assignment not found.''), s')
                  else (Inr [(''message'', Str ''Assignment status updated successfully'')], s'))))"

section \<open>Notions used by the properties\<close>

text \<open>The status that \<open>fastapi.status\<close> names for a conflict; the services never use it.\<close>

definition HTTP_409_CONFLICT :: nat where "HTTP_409_CONFLICT = 409"

definition raises_status :: "nat \<Rightarrow> exn + 'a \<Rightarrow> bool" where
  "raises_status c r = (case r of Inl e \<Rightarrow> status_code e = Some c | Inr x \<Rightarrow> False)"

text \<open>The shape of the stored users (data model of the specification): every user document
  has an identifier, a username, a password hash and a role, and usernames are unique.
  Registration establishes and keeps this shape.\<close>

definition has_str :: "document \<Rightarrow> string \<Rightarrow> bool" where
  "has_str d k = (case map_of d k of Some (Str x) \<Rightarrow> True | _ \<Rightarrow> False)"

definition has_oid :: "document \<Rightarrow> string \<Rightarrow> bool" where
  "has_oid d k = (case map_of d k of Some (ObjectId x) \<Rightarrow> True | _ \<Rightarrow> False)"

definition user_ok :: "document \<Rightarrow> bool" where
  "user_ok d =
     (has_oid d ''_id'' \<and> has_str d ''username'' \<and> has_str d ''password'' \<and> has_str d ''role'')"

definition wf_users :: "collection \<Rightarrow> bool" where
  "wf_users c = (list_all user_ok c \<and> distinct (map (\<lambda>d. map_of d ''username'') c))"

text \<open>A stored assignment has the fields that the listing reads.\<close>

definition assignment_ok :: "document \<Rightarrow> bool" where
  "assignment_ok d =
     list_all (\<lambda>k. map_of d k \<noteq> None)
       [''_id'', ''userId'', ''task'', ''admin'', ''status'', ''timestamp'']"

text \<open>The entries of the two listings, for documents that have the fields.\<close>

definition admin_view :: "lib \<Rightarrow> document \<Rightarrow> document" where
  "admin_view L a =
     [(''id'', Str (py_str L (dict_get a ''_id'' Null))), (''username'', dict_get a ''username'' Null)]"

definition assignment_view :: "lib \<Rightarrow> document \<Rightarrow> document" where
  "assignment_view L a =
     [(''id'', Str (py_str L (dict_get a ''_id'' Null))),
      (''userId'', dict_get a ''userId'' Null),
      (''task'', dict_get a ''task'' Null),
      (''admin'', dict_get a ''admin'' Null),
      (''status'', dict_get a ''status'' Null),
      (''timestamp'', dict_get a ''timestamp'' Null)]"

subsection \<open>A small instance for examples\<close>

text \<open>Stand-ins for the collaborators: a hash that prefixes the password, a token that
  carries the subject in the clear, identifiers printed in unary.\<close>

definition demo_lib :: lib where
  "demo_lib =
     \<lparr>pwd_hash = (\<lambda>p. ''$2b$'' @ p),
      pwd_verify = (\<lambda>p h. h = ''$2b$'' @ p),
      jwt_encode = (\<lambda>p. ''jwt.'' @ (case map_of p ''sub'' of Some (Str u) \<Rightarrow> u | _ \<Rightarrow> [])),
      jwt_decode = (\<lambda>t. if take 4 t = ''jwt.'' then Inr [(''sub'', Str (drop 4 t))]
                         else if t = ''expired'' then Inl ExpiredSignatureError
                         else Inl InvalidSignatureError),
      ObjectId_parse = (\<lambda>t. if t \<noteq> [] \<and> list_all (\<lambda>c. c = CHR ''1'') t then Some (length t) else None),
      py_str = (\<lambda>v. case v of Str x \<Rightarrow> x | ObjectId n \<Rightarrow> replicate n (CHR ''1'') | _ \<Rightarrow> []),
      ACCESS_TOKEN_EXPIRE_MINUTES = 15\<rparr>"

definition alice :: document where
  "alice = [(''_id'', ObjectId 1), (''username'', Str ''alice''), (''password'', Str ''$2b$pw1''),
            (''role'', Str ''admin'')]"

definition bob :: document where
  "bob = [(''_id'', ObjectId 2), (''username'', Str ''bob''), (''password'', Str ''$2b$pw2''),
          (''role'', Str ''user'')]"

definition carol :: document where
  "carol = [(''_id'', ObjectId 3), (''username'', Str ''carol''), (''password'', Str ''$2b$pw3''),
            (''role'', Str ''user''), (''is_active'', Bool False)]"

definition essay :: "nat \<Rightarrow> document" where
  "essay n = [(''_id'', ObjectId n), (''user_id'', ObjectId 2), (''userId'', Str ''bob''),
              (''task'', Str ''essay''), (''admin_id'', ObjectId 1), (''admin'', Str ''alice''),
              (''status'', Str ''pending''), (''timestamp'', Datetime 0)]"

definition demo_db :: db where
  "demo_db = \<lparr>users_collection = [alice, bob], assignments_collection = [essay 4, essay 5]\<rparr>"

definition nameless :: document where
  "nameless = [(''_id'', ObjectId 6), (''user_id'', ObjectId 2), (''userId'', Str ''bob''),
               (''task'', Str ''essay''), (''admin_id'', ObjectId 8), (''admin'', Str []),
               (''status'', Str ''pending''), (''timestamp'', Datetime 0)]"

definition nameless_db :: db where
  "nameless_db = \<lparr>users_collection = [alice, bob], assignments_collection = [nameless]\<rparr>"

definition big_db :: db where
  "big_db = \<lparr>users_collection = [alice, bob], assignments_collection = map essay [0..<101]\<rparr>"

section \<open>Facts about filters, lookups and updates\<close>

lemma matches_username [simp]:
  "matches [(''username'', Str u)] d = (map_of d ''username'' = Some (Str u))"
  by (simp add: matches_def field_matches_def split: option.splits)

lemma matches_username_role [simp]:
  "matches [(''username'', Str u), (''role'', Str r)] d =
     (map_of d ''username'' = Some (Str u) \<and> map_of d ''role'' = Some (Str r))"
  by (simp add: matches_def field_matches_def split: option.splits)

lemma matches_role [simp]:
  "matches [(''role'', Str r)] d = (map_of d ''role'' = Some (Str r))"
  by (simp add: matches_def field_matches_def split: option.splits)

lemma matches_id [simp]:
  "matches [(''_id'', ObjectId i)] d = (map_of d ''_id'' = Some (ObjectId i))"
  by (simp add: matches_def field_matches_def split: option.splits)

lemma find_docs_role [simp]:
  "find_docs [(''role'', Str r)] c = filter (\<lambda>d. map_of d ''role'' = Some (Str r)) c"
  unfolding find_docs_def by (rule filter_cong) simp_all

lemma find_docs_admin [simp]:
  "find_docs [(''admin'', Str n)] c = filter (\<lambda>d. map_of d ''admin'' = Some (Str n)) c"
  unfolding find_docs_def
  by (rule filter_cong) (simp_all add: matches_def field_matches_def split: option.splits)

lemma find_docs_admin_id [simp]:
  "find_docs [(''admin_id'', ObjectId i)] c =
     filter (\<lambda>d. map_of d ''admin_id'' = Some (ObjectId i)) c"
  unfolding find_docs_def
  by (rule filter_cong) (simp_all add: matches_def field_matches_def split: option.splits)

lemma find_one_None: "find_one q c = None \<longleftrightarrow> (\<forall>d\<in>set c. \<not> matches q d)"
  by (auto simp: find_one_def find_None_iff)

lemma find_one_SomeD: "find_one q c = Some d \<Longrightarrow> d \<in> set c \<and> matches q d"
  by (auto simp: find_one_def find_Some_iff)

lemma find_unique:
  "distinct (map f c) \<Longrightarrow> d \<in> set c \<Longrightarrow> P d \<Longrightarrow> (\<And>x. x \<in> set c \<Longrightarrow> P x \<Longrightarrow> f x = f d)
     \<Longrightarrow> List.find P c = Some d"
proof (induction c)
  case Nil
  then show ?case by simp
next
  case (Cons a c)
  show ?case
  proof (cases "P a")
    case True
    then have "f a = f d" using Cons.prems(4) by simp
    then have "a = d" using Cons.prems(1,2) by force
    then show ?thesis using True by simp
  next
    case False
    then have "d \<in> set c" using Cons.prems(2,3) by auto
    moreover have "distinct (map f c)" using Cons.prems(1) by simp
    ultimately have "List.find P c = Some d"
      using Cons.IH Cons.prems(3,4) by (metis list.set_intros(2))
    then show ?thesis using False by simp
  qed
qed

lemma find_one_username_nonempty:
  "find_one [(''username'', Str u)] c \<noteq> Some []"
  by (auto dest: find_one_SomeD)

lemma find_one_username_taken:
  assumes "\<exists>d\<in>set c. map_of d ''username'' = Some (Str u)"
  shows "\<exists>f e. find_one [(''username'', Str u)] c = Some (f # e)"
proof -
  from assms have "find_one [(''username'', Str u)] c \<noteq> None"
    by (simp add: find_one_None)
  then obtain d where d: "find_one [(''username'', Str u)] c = Some d" by auto
  with find_one_username_nonempty [of u c] have "d \<noteq> []" by auto
  with d show ?thesis by (cases d) auto
qed

lemma find_one_username_free:
  assumes "\<forall>d\<in>set c. map_of d ''username'' \<noteq> Some (Str u)"
  shows "find_one [(''username'', Str u)] c = None"
  using assms by (simp add: find_one_None)

lemma map_of_dict_set_same [simp]: "map_of (dict_set d k v) k = Some v"
  by (induction d) auto

lemma map_of_dict_set_other [simp]: "k' \<noteq> k \<Longrightarrow> map_of (dict_set d k v) k' = map_of d k'"
  by (induction d) auto

lemma update_one_first:
  assumes "\<forall>x\<in>set xs. \<not> matches q x" and "matches q d"
  shows "update_one q k v (xs @ d # ys) = (xs @ dict_set d k v # ys, 1)"
  using assms by (induction xs) auto

lemma update_one_none:
  assumes "\<forall>x\<in>set c. \<not> matches q x"
  shows "update_one q k v c = (c, 0)"
  using assms by (induction c) auto

lemma collect_map:
  assumes "\<forall>x\<in>set xs. f x = Inr (g x)"
  shows "collect f xs = Inr (map g xs)"
  using assms by (induction xs) auto

lemma collect_error:
  assumes "collect f xs = Inl e"
  shows "\<exists>x\<in>set xs. f x = Inl e"
  using assms by (induction xs) (auto split: sum.splits)

section \<open>Facts about the stored users\<close>

lemma wf_user_okD:
  assumes "wf_users c" "d \<in> set c"
  shows "\<exists>i u h r. map_of d ''_id'' = Some (ObjectId i) \<and> map_of d ''username'' = Some (Str u)
           \<and> map_of d ''password'' = Some (Str h) \<and> map_of d ''role'' = Some (Str r)"
proof -
  from assms have "user_ok d" by (simp add: wf_users_def list_all_iff)
  then show ?thesis
    by (auto simp: user_ok_def has_str_def has_oid_def split: option.splits val.splits)
qed

lemma wf_same_username:
  assumes "wf_users c" "d \<in> set c" "x \<in> set c" "map_of x ''username'' = map_of d ''username''"
  shows "x = d"
proof -
  from assms(1) have "inj_on (\<lambda>d. map_of d ''username'') (set c)"
    by (simp add: wf_users_def distinct_map)
  with assms(2-4) show ?thesis by (auto dest: inj_onD)
qed

lemma wf_find_one_username:
  assumes "wf_users c" "d \<in> set c" "map_of d ''username'' = Some (Str u)"
  shows "find_one [(''username'', Str u)] c = Some d"
  unfolding find_one_def
  by (rule find_unique [where f = "\<lambda>d. map_of d ''username''"]) (use assms in \<open>auto simp: wf_users_def\<close>)

lemma wf_find_one_username_role:
  assumes "wf_users c" "d \<in> set c" "map_of d ''username'' = Some (Str u)" "map_of d ''role'' = Some (Str r)"
  shows "find_one [(''username'', Str u), (''role'', Str r)] c = Some d"
  unfolding find_one_def
  by (rule find_unique [where f = "\<lambda>d. map_of d ''username''"]) (use assms in \<open>auto simp: wf_users_def\<close>)

subsection \<open>Registration\<close>

lemma register_user_taken:
  assumes "\<exists>d\<in>set (users_collection s). map_of d ''username'' = Some (Str (username user))"
  shows "register_user L oid s user =
           (Inl (HTTPException HTTP_400_BAD_REQUEST ''Username already taken''), s)"
proof -
  from find_one_username_taken [OF assms] obtain f e where
    "find_one [(''username'', Str (username user))] (users_collection s) = Some (f # e)" by auto
  then show ?thesis by (simp add: register_user_def)
qed

lemma register_admin_taken:
  assumes "\<exists>d\<in>set (users_collection s). map_of d ''username'' = Some (Str (username user))"
  shows "register_admin L oid s user =
           (Inl (HTTPException HTTP_400_BAD_REQUEST ''Username already taken''), s)"
proof -
  from find_one_username_taken [OF assms] obtain f e where
    "find_one [(''username'', Str (username user))] (users_collection s) = Some (f # e)" by auto
  then show ?thesis by (simp add: register_admin_def)
qed

lemma register_user_free:
  assumes "\<forall>d\<in>set (users_collection s). map_of d ''username'' \<noteq> Some (Str (username user))"
  shows "register_user L oid s user =
           (Inr [(''id'', Str (py_str L (ObjectId oid))),
                 (''message'', Str ''User registered successfully'')],
            s\<lparr>users_collection := users_collection s @
                 [[(''_id'', ObjectId oid), (''username'', Str (username user)),
                   (''password'', Str (pwd_hash L (password user))), (''role'', Str ''user'')]]\<rparr>)"
  using find_one_username_free [OF assms]
  by (simp add: register_user_def insert_one_def get_password_hash_def)

lemma register_admin_free:
  assumes "\<forall>d\<in>set (users_collection s). map_of d ''username'' \<noteq> Some (Str (username user))"
  shows "register_admin L oid s user =
           (Inr [(''id'', Str (py_str L (ObjectId oid))),
                 (''message'', Str ''Admin registered successfully'')],
            s\<lparr>users_collection := users_collection s @
                 [[(''_id'', ObjectId oid), (''username'', Str (username user)),
                   (''password'', Str (pwd_hash L (password user))), (''role'', Str ''admin'')]]\<rparr>)"
  using find_one_username_free [OF assms]
  by (simp add: register_admin_def insert_one_def get_password_hash_def)

text \<open>
  Registration keeps the shape of the user collection, and the other services do not
  write to it: every store that the services build from a well-formed one is well-formed.
\<close>

lemma register_user_wf:
  assumes "wf_users (users_collection s)"
  shows "wf_users (users_collection (snd (register_user L oid s user)))"
proof (cases "\<exists>d\<in>set (users_collection s). map_of d ''username'' = Some (Str (username user))")
  case True
  then show ?thesis using assms by (simp add: register_user_taken)
next
  case False
  then have free: "\<forall>d\<in>set (users_collection s). map_of d ''username'' \<noteq> Some (Str (username user))"
    by simp
  show ?thesis
    using assms free
    by (auto simp: register_user_free [OF free] wf_users_def user_ok_def has_str_def has_oid_def)
qed

lemma register_admin_wf:
  assumes "wf_users (users_collection s)"
  shows "wf_users (users_collection (snd (register_admin L oid s user)))"
proof (cases "\<exists>d\<in>set (users_collection s). map_of d ''username'' = Some (Str (username user))")
  case True
  then show ?thesis using assms by (simp add: register_admin_taken)
next
  case False
  then have free: "\<forall>d\<in>set (users_collection s). map_of d ''username'' \<noteq> Some (Str (username user))"
    by simp
  show ?thesis
    using assms free
    by (auto simp: register_admin_free [OF free] wf_users_def user_ok_def has_str_def has_oid_def)
qed

lemma upload_assignment_users:
  "users_collection (snd (upload_assignment L now oid s a caller)) = users_collection s"
  by (simp add: upload_assignment_def Let_def split: option.splits list.splits sum.splits)

lemma update_assignment_status_users:
  "users_collection (snd (update_assignment_status L s a caller)) = users_collection s"
  by (simp add: update_assignment_status_def Let_def split: option.splits sum.splits)

subsection \<open>Login\<close>

lemma login_found_verified:
  assumes "map_of d ''username'' = Some (Str u)" and "map_of d ''password'' = Some (Str h)"
    and "map_of d ''_id'' = Some i" and "pwd_verify L p h"
  shows "login_found L now (Some d) p =
           Inr [(''id'', Str (py_str L i)), (''username'', Str u),
                (''access_token'',
                 Str (jwt_encode L [(''sub'', Str u), (''exp'', Datetime (now + timedelta_minutes 30))])),
                (''token_type'', Str ''bearer'')]"
proof -
  from assms(1) obtain x xs where "d = x # xs" by (cases d) auto
  with assms show ?thesis
    by (simp add: login_found_def dict_item_def create_access_token_def token_payload_def
        timedelta_minutes_def)
qed

lemma login_found_rejected:
  assumes "map_of d ''password'' = Some (Str h)" and "\<not> pwd_verify L p h"
  shows "login_found L now (Some d) p = Inl invalid_login"
  using assms by (cases d) (simp_all add: login_found_def dict_item_def)

lemma login_found_lifetime:
  "login_found (L\<lparr>ACCESS_TOKEN_EXPIRE_MINUTES := m\<rparr>) now found p = login_found L now found p"
proof -
  have v: "verify_password (L\<lparr>ACCESS_TOKEN_EXPIRE_MINUTES := m\<rparr>) p x = verify_password L p x" for x
    by (cases x) simp_all
  have t: "create_access_token (L\<lparr>ACCESS_TOKEN_EXPIRE_MINUTES := m\<rparr>) now dat
             (Some (timedelta_minutes 30)) =
           create_access_token L now dat (Some (timedelta_minutes 30))" for dat
    by (simp add: create_access_token_def token_payload_def timedelta_minutes_def)
  show ?thesis
    by (simp add: login_found_def v t split: option.splits list.splits sum.splits bool.splits)
qed

subsection \<open>Upload and listings\<close>

lemma upload_no_admin:
  assumes wf: "wf_users (users_collection s)"
    and none: "\<forall>d\<in>set (users_collection s).
                 \<not> (map_of d ''username'' = Some (Str (admin a)) \<and> map_of d ''role'' = Some (Str ''admin''))"
  shows "upload_assignment L now oid s a caller = (Inl (admin_not_found (admin a)), s)"
proof (cases "find_one [(''username'', Str (admin a))] (users_collection s)")
  case None
  then show ?thesis by (simp add: upload_assignment_def)
next
  case (Some d)
  then have d: "d \<in> set (users_collection s)" "map_of d ''username'' = Some (Str (admin a))"
    using find_one_SomeD [OF Some] by auto
  with none have nr: "map_of d ''role'' \<noteq> Some (Str ''admin'')" by blast
  from wf_user_okD [OF wf d(1)] obtain r where r: "map_of d ''role'' = Some (Str r)" by auto
  with nr have "r \<noteq> ''admin''" by auto
  with Some r show ?thesis
    by (cases d) (simp_all add: upload_assignment_def dict_item_def)
qed

lemma upload_admin:
  assumes wf: "wf_users (users_collection s)"
    and d: "d \<in> set (users_collection s)" "map_of d ''username'' = Some (Str (admin a))"
      "map_of d ''role'' = Some (Str ''admin'')" "map_of d ''_id'' = Some aid"
    and c: "map_of caller ''_id'' = Some cid"
  shows "upload_assignment L now oid s a caller =
           (Inr [(''id'', Str (py_str L (ObjectId oid))),
                 (''message'', Str ''Assignment uploaded successfully'')],
            s\<lparr>assignments_collection := assignments_collection s @
                 [[(''_id'', ObjectId oid), (''user_id'', cid), (''userId'', Str (userId a)),
                   (''task'', Str (task a)), (''admin_id'', aid), (''admin'', Str (admin a)),
                   (''status'', Str ''pending''), (''timestamp'', Datetime now)]]\<rparr>)"
proof -
  have f: "find_one [(''username'', Str (admin a))] (users_collection s) = Some d"
    using wf d(1,2) by (rule wf_find_one_username)
  from d(2) have "d \<noteq> []" by auto
  then obtain x xs where "d = x # xs" by (cases d) auto
  with f d c show ?thesis
    by (simp add: upload_assignment_def dict_item_def insert_one_def)
qed

lemma admin_entry_error: "admin_entry L a = Inl e \<Longrightarrow> \<exists>k. e = KeyError k"
  by (auto simp: admin_entry_def dict_item_def split: option.splits)

lemma admin_entry_view:
  assumes "user_ok a"
  shows "admin_entry L a = Inr (admin_view L a)"
  using assms
  by (auto simp: admin_entry_def admin_view_def dict_item_def dict_get_def user_ok_def
      has_str_def has_oid_def split: option.splits val.splits)

lemma assignment_entry_view:
  assumes "assignment_ok a"
  shows "assignment_entry L a = Inr (assignment_view L a)"
  using assms
  by (auto simp: assignment_entry_def assignment_view_def dict_item_def dict_get_def
      assignment_ok_def split: option.splits)

lemma collect_assignment_views:
  assumes "list_all assignment_ok c"
  shows "collect (assignment_entry L) (take n (filter P c)) =
           Inr (map (assignment_view L) (take n (filter P c)))"
proof (rule collect_map, rule ballI)
  fix x assume "x \<in> set (take n (filter P c))"
  then have "x \<in> set c" by (auto dest: in_set_takeD)
  with assms have "assignment_ok x" by (simp add: list_all_iff)
  then show "assignment_entry L x = Inr (assignment_view L x)" by (rule assignment_entry_view)
qed

lemma listing_by_name:
  assumes "map_of caller ''role'' = Some (Str ''admin'')"
    and "list_all assignment_ok (assignments_collection s)" and "name \<noteq> []"
  shows "get_assignments_for_admin L s caller (Some name) =
           Inr (''assignments'',
                map (assignment_view L)
                  (take 100 (filter (\<lambda>d. map_of d ''admin'' = Some (Str name))
                     (assignments_collection s))))"
proof -
  from assms(3) obtain c cs where n: "name = c # cs" by (cases name) auto
  show ?thesis
    using assms(1) collect_assignment_views [OF assms(2)]
    by (simp add: get_assignments_for_admin_def dict_item_def n)
qed

lemma listing_by_caller:
  assumes "map_of caller ''role'' = Some (Str ''admin'')"
    and "list_all assignment_ok (assignments_collection s)"
    and "map_of caller ''_id'' = Some (ObjectId i)"
    and "flt = None \<or> flt = Some []"
  shows "get_assignments_for_admin L s caller flt =
           Inr (''assignments'',
                map (assignment_view L)
                  (take 100 (filter (\<lambda>d. map_of d ''admin_id'' = Some (ObjectId i))
                     (assignments_collection s))))"
  using assms(1,3,4) collect_assignment_views [OF assms(2)]
  by (auto simp: get_assignments_for_admin_def dict_item_def)

subsection \<open>The example instance\<close>

lemma demo_lib_simps:
  "pwd_hash demo_lib p = ''$2b$'' @ p"
  "pwd_verify demo_lib p h = (h = ''$2b$'' @ p)"
  "jwt_encode demo_lib pl = ''jwt.'' @ (case map_of pl ''sub'' of Some (Str u) \<Rightarrow> u | _ \<Rightarrow> [])"
  "jwt_decode demo_lib t =
     (if take 4 t = ''jwt.'' then Inr [(''sub'', Str (drop 4 t))]
      else if t = ''expired'' then Inl ExpiredSignatureError else Inl InvalidSignatureError)"
  by (simp_all add: demo_lib_def)

lemma demo_assignments_ok: "list_all assignment_ok (map essay xs)"
  by (simp add: list_all_iff assignment_ok_def essay_def)

lemma essay_admin: "map_of (essay n) ''admin'' = Some (Str ''alice'')"
  by (simp add: essay_def)

lemma essay_admin_id: "map_of (essay n) ''admin_id'' = Some (ObjectId 1)"
  by (simp add: essay_def)

lemma filter_essays:
  "filter (\<lambda>d. map_of d ''admin'' = Some (Str ''alice'')) (map essay xs) = map essay xs"
  by (induction xs) (simp_all add: essay_admin)

section \<open>The claims\<close>

subsection \<open>C1: the active-user check\<close>

text \<open>
  Claim C1. For a caller whose \<open>is_active\<close> flag is false, \<open>get_current_active_user\<close>
  raises an \<open>HTTPException\<close> with detail "Inactive user"; its status code is 400 (Bad
  Request), not 403 (Forbidden). A caller whose flag is true, or whose document has no
  \<open>is_active\<close> field, is returned unchanged.
\<close>

theorem active_check:
  "(map_of u ''is_active'' = Some (Bool False) \<longrightarrow>
      get_current_active_user u = Inl (HTTPException HTTP_400_BAD_REQUEST ''Inactive user''))
   \<and> (map_of u ''is_active'' = Some (Bool True) \<or> map_of u ''is_active'' = None \<longrightarrow>
      get_current_active_user u = Inr u)"
  by (auto simp: get_current_active_user_def dict_get_def HTTP_400_BAD_REQUEST_def)

theorem active_check_witness:
  "get_current_active_user carol = Inl (HTTPException 400 ''Inactive user'')
   \<and> get_current_active_user bob = Inr bob"
  using active_check [of carol] active_check [of bob]
  by (simp add: carol_def bob_def HTTP_400_BAD_REQUEST_def)

text \<open>
  As stated (a Forbidden error) the claim fails: for the inactive user \<open>carol\<close> the
  status is 400, the one the services also use for a malformed identifier.
\<close>

theorem active_check_counterexample:
  "get_current_active_user carol = Inl (HTTPException 400 ''Inactive user'')
   \<and> raises_status HTTP_400_BAD_REQUEST (get_current_active_user carol)
   \<and> \<not> raises_status HTTP_403_FORBIDDEN (get_current_active_user carol)"
  by (simp add: get_current_active_user_def carol_def dict_get_def raises_status_def
      HTTP_403_FORBIDDEN_def HTTP_400_BAD_REQUEST_def)

subsection \<open>C2: registration and taken usernames\<close>

text \<open>
  Claim C2. When some stored user has the username, \<open>register_user\<close> and
  \<open>register_admin\<close> raise an \<open>HTTPException\<close> with status 400 (Bad Request) and detail
  "Username already taken", and the store is unchanged. When no stored user has it, they
  append one document with the username, the hashed password and the fixed role under the
  new identifier, and return that identifier.
\<close>

theorem register_taken_or_inserted:
  "((\<exists>d\<in>set (users_collection s). map_of d ''username'' = Some (Str (username user))) \<longrightarrow>
      register_user L oid s user =
        (Inl (HTTPException HTTP_400_BAD_REQUEST ''Username already taken''), s)
      \<and> register_admin L oid s user =
        (Inl (HTTPException HTTP_400_BAD_REQUEST ''Username already taken''), s))
   \<and> ((\<forall>d\<in>set (users_collection s). map_of d ''username'' \<noteq> Some (Str (username user))) \<longrightarrow>
      register_user L oid s user =
        (Inr [(''id'', Str (py_str L (ObjectId oid))),
              (''message'', Str ''User registered successfully'')],
         s\<lparr>users_collection := users_collection s @
              [[(''_id'', ObjectId oid), (''username'', Str (username user)),
                (''password'', Str (get_password_hash L (password user))),
                (''role'', Str ''user'')]]\<rparr>)
      \<and> register_admin L oid s user =
        (Inr [(''id'', Str (py_str L (ObjectId oid))),
              (''message'', Str ''Admin registered successfully'')],
         s\<lparr>users_collection := users_collection s @
              [[(''_id'', ObjectId oid), (''username'', Str (username user)),
                (''password'', Str (get_password_hash L (password user))),
                (''role'', Str ''admin'')]]\<rparr>))"
  by (simp add: register_user_taken register_admin_taken register_user_free register_admin_free
      get_password_hash_def)

theorem register_taken_or_inserted_witness:
  "register_user demo_lib 9 demo_db \<lparr>username = ''bob'', password = ''x''\<rparr> =
     (Inl (HTTPException 400 ''Username already taken''), demo_db)
   \<and> users_collection (snd (register_admin demo_lib 9 demo_db \<lparr>username = ''dave'', password = ''x''\<rparr>)) =
       [alice, bob, [(''_id'', ObjectId 9), (''username'', Str ''dave''), (''password'', Str ''$2b$x''), (''role'', Str ''admin'')]]"
  using register_taken_or_inserted [of demo_db "\<lparr>username = ''bob'', password = ''x''\<rparr>" demo_lib 9]
    register_taken_or_inserted [of demo_db "\<lparr>username = ''dave'', password = ''x''\<rparr>" demo_lib 9]
  by (simp add: demo_db_def alice_def bob_def HTTP_400_BAD_REQUEST_def get_password_hash_def demo_lib_def)

text \<open>
  As stated (a Conflict error) the claim fails: registering the taken name \<open>bob\<close> gives
  status 400, not 409.
\<close>

theorem register_conflict_counterexample:
  "fst (register_user demo_lib 9 demo_db \<lparr>username = ''bob'', password = ''x''\<rparr>) =
     Inl (HTTPException 400 ''Username already taken'')
   \<and> fst (register_admin demo_lib 9 demo_db \<lparr>username = ''bob'', password = ''x''\<rparr>) =
     Inl (HTTPException 400 ''Username already taken'')
   \<and> raises_status HTTP_400_BAD_REQUEST
         (fst (register_user demo_lib 9 demo_db \<lparr>username = ''bob'', password = ''x''\<rparr>))
   \<and> \<not> raises_status HTTP_409_CONFLICT
         (fst (register_user demo_lib 9 demo_db \<lparr>username = ''bob'', password = ''x''\<rparr>))
   \<and> \<not> raises_status HTTP_409_CONFLICT
         (fst (register_admin demo_lib 9 demo_db \<lparr>username = ''bob'', password = ''x''\<rparr>))"
  by (simp add: register_user_def register_admin_def demo_db_def alice_def bob_def find_one_def
      raises_status_def HTTP_400_BAD_REQUEST_def HTTP_409_CONFLICT_def)

subsection \<open>C3: undecodable tokens\<close>

text \<open>
  Claim C3. Whenever \<open>jwt.decode\<close> fails with an expired signature, an invalid
  signature, a decoding error or another invalid-token error, \<open>decode_access_token\<close>
  returns \<open>None\<close> instead of raising, and \<open>get_current_user\<close> raises the same 401
  "Could not validate credentials" in every one of these cases.
\<close>

theorem decode_failure:
  assumes "jwt_decode L token = Inl e"
    and "e = ExpiredSignatureError \<or> e = InvalidSignatureError \<or> e = DecodeError \<or> e = InvalidTokenError"
  shows "decode_access_token L token = Inr None \<and>
         get_current_user L s token =
           Inl (HTTPException HTTP_401_UNAUTHORIZED ''Could not validate credentials'')"
  using assms by (auto simp: decode_access_token_def get_current_user_def credentials_exception_def)

theorem decode_failure_witness:
  "decode_access_token demo_lib ''expired'' = Inr None
   \<and> decode_access_token demo_lib ''tampered'' = Inr None
   \<and> get_current_user demo_lib demo_db ''expired'' = get_current_user demo_lib demo_db ''tampered''
   \<and> raises_status 401 (get_current_user demo_lib demo_db ''expired'')"
  using decode_failure [of demo_lib "''expired''" ExpiredSignatureError demo_db]
    decode_failure [of demo_lib "''tampered''" InvalidSignatureError demo_db]
  by (simp add: demo_lib_def raises_status_def HTTP_401_UNAUTHORIZED_def)

subsection \<open>C4: admin login is scoped to the admin role\<close>

text \<open>
  Claim C4. In a well-formed user collection, \<open>login_admin\<close> with the username and the
  correct password of a stored account raises 401 "Invalid username or password" when the
  account has role "user", and succeeds when it has role "admin".
\<close>

theorem login_admin_role_scoped:
  assumes "wf_users (users_collection s)" and "d \<in> set (users_collection s)"
    and "map_of d ''username'' = Some (Str (username user))"
    and "map_of d ''password'' = Some (Str h)"
    and "pwd_verify L (password user) h"
  shows "(map_of d ''role'' = Some (Str ''user'') \<longrightarrow>
            login_admin L now s user =
              Inl (HTTPException HTTP_401_UNAUTHORIZED ''Invalid username or password''))
       \<and> (map_of d ''role'' = Some (Str ''admin'') \<longrightarrow>
            login_admin L now s user =
              Inr [(''id'', Str (py_str L (dict_get d ''_id'' Null))),
                   (''username'', Str (username user)),
                   (''access_token'',
                    Str (jwt_encode L [(''sub'', Str (username user)),
                                       (''exp'', Datetime (now + timedelta_minutes 30))])),
                   (''token_type'', Str ''bearer'')])"
proof (intro conjI impI)
  assume r: "map_of d ''role'' = Some (Str ''user'')"
  have "find_one [(''username'', Str (username user)), (''role'', Str ''admin'')]
          (users_collection s) = None"
  proof (simp only: find_one_None, rule ballI)
    fix x assume x: "x \<in> set (users_collection s)"
    show "\<not> matches [(''username'', Str (username user)), (''role'', Str ''admin'')] x"
    proof
      assume "matches [(''username'', Str (username user)), (''role'', Str ''admin'')] x"
      then have m: "map_of x ''username'' = Some (Str (username user))"
        "map_of x ''role'' = Some (Str ''admin'')" by simp_all
      from m(1) assms(3) have "x = d" using wf_same_username [OF assms(1,2) x] by simp
      with m(2) r show False by simp
    qed
  qed
  then show "login_admin L now s user =
              Inl (HTTPException HTTP_401_UNAUTHORIZED ''Invalid username or password'')"
    by (simp add: login_admin_def login_found_def invalid_login_def)
next
  assume r: "map_of d ''role'' = Some (Str ''admin'')"
  have f: "find_one [(''username'', Str (username user)), (''role'', Str ''admin'')]
          (users_collection s) = Some d"
    using assms(1-3) r by (rule wf_find_one_username_role)
  from wf_user_okD [OF assms(1,2)] obtain i where i: "map_of d ''_id'' = Some (ObjectId i)"
    by auto
  show "login_admin L now s user =
              Inr [(''id'', Str (py_str L (dict_get d ''_id'' Null))),
                   (''username'', Str (username user)),
                   (''access_token'',
                    Str (jwt_encode L [(''sub'', Str (username user)),
                                       (''exp'', Datetime (now + timedelta_minutes 30))])),
                   (''token_type'', Str ''bearer'')]"
    using login_found_verified [OF assms(3,4) i assms(5), of now]
    by (simp add: login_admin_def f dict_get_def i)
qed

theorem login_admin_role_scoped_witness:
  "login_admin demo_lib 1000 demo_db \<lparr>username = ''bob'', password = ''pw2''\<rparr> =
     Inl (HTTPException 401 ''Invalid username or password'')
   \<and> login_admin demo_lib 1000 demo_db \<lparr>username = ''alice'', password = ''pw1''\<rparr> =
     Inr [(''id'', Str (py_str demo_lib (ObjectId 1))), (''username'', Str ''alice''),
          (''access_token'', Str ''jwt.alice''), (''token_type'', Str ''bearer'')]"
proof -
  have wf: "wf_users (users_collection demo_db)"
    by (simp add: wf_users_def user_ok_def has_str_def has_oid_def demo_db_def alice_def bob_def)
  have b: "bob \<in> set (users_collection demo_db)" "alice \<in> set (users_collection demo_db)"
    by (simp_all add: demo_db_def)
  have ub: "map_of bob ''username'' = Some (Str (username \<lparr>username = ''bob'', password = ''pw2''\<rparr>))"
    and hb: "map_of bob ''password'' = Some (Str ''$2b$pw2'')"
    and vb: "pwd_verify demo_lib (password \<lparr>username = ''bob'', password = ''pw2''\<rparr>) ''$2b$pw2''"
    and rb: "map_of bob ''role'' = Some (Str ''user'')"
    by (simp_all add: bob_def demo_lib_simps)
  have ua: "map_of alice ''username'' = Some (Str (username \<lparr>username = ''alice'', password = ''pw1''\<rparr>))"
    and ha: "map_of alice ''password'' = Some (Str ''$2b$pw1'')"
    and va: "pwd_verify demo_lib (password \<lparr>username = ''alice'', password = ''pw1''\<rparr>) ''$2b$pw1''"
    and ra: "map_of alice ''role'' = Some (Str ''admin'')"
    and ia: "dict_get alice ''_id'' Null = ObjectId 1"
    by (simp_all add: alice_def demo_lib_simps dict_get_def)
  have enc: "jwt_encode demo_lib [(''sub'', Str ''alice''), (''exp'', Datetime (1000 + timedelta_minutes 30))]
               = ''jwt.alice''"
    by (simp add: demo_lib_simps)
  show ?thesis
    using login_admin_role_scoped [OF wf b(1) ub hb vb, of 1000]
      login_admin_role_scoped [OF wf b(2) ua ha va, of 1000]
    by (simp add: rb ra ia enc HTTP_401_UNAUTHORIZED_def)
qed

subsection \<open>C5: changing the status of an assignment\<close>

text \<open>
  Claim C5. For a caller whose role is not "admin", \<open>update_assignment_status\<close> raises
  403 and returns the store as it was. For an admin caller and the identifier of a stored
  assignment, it sets the \<open>status\<close> field of that assignment to the new status, whatever
  the document held before, and reports success.
\<close>

theorem status_update_guard:
  "(map_of caller ''role'' = Some r \<and> r \<noteq> Str ''admin'' \<longrightarrow>
      update_assignment_status L s a caller =
        (Inl (HTTPException HTTP_403_FORBIDDEN ''Not authorized to accept assignments.''), s))
   \<and> (map_of caller ''role'' = Some (Str ''admin'')
        \<and> ObjectId_parse L (assignment_id a) = Some i
        \<and> assignments_collection s = xs @ d # ys
        \<and> (\<forall>x\<in>set xs. map_of x ''_id'' \<noteq> Some (ObjectId i))
        \<and> map_of d ''_id'' = Some (ObjectId i) \<longrightarrow>
      update_assignment_status L s a caller =
        (Inr [(''message'', Str ''Assignment status updated successfully'')],
         s\<lparr>assignments_collection := xs @ dict_set d ''status'' (Str (status a)) # ys\<rparr>)
      \<and> map_of (dict_set d ''status'' (Str (status a))) ''status'' = Some (Str (status a)))"
proof (intro conjI impI)
  assume "map_of caller ''role'' = Some r \<and> r \<noteq> Str ''admin''"
  then show "update_assignment_status L s a caller =
        (Inl (HTTPException HTTP_403_FORBIDDEN ''Not authorized to accept assignments.''), s)"
    by (simp add: update_assignment_status_def dict_item_def)
next
  assume h: "map_of caller ''role'' = Some (Str ''admin'')
        \<and> ObjectId_parse L (assignment_id a) = Some i
        \<and> assignments_collection s = xs @ d # ys
        \<and> (\<forall>x\<in>set xs. map_of x ''_id'' \<noteq> Some (ObjectId i))
        \<and> map_of d ''_id'' = Some (ObjectId i)"
  then have "update_one [(''_id'', ObjectId i)] ''status'' (Str (status a)) (assignments_collection s)
      = (xs @ dict_set d ''status'' (Str (status a)) # ys, 1)"
    by (simp add: update_one_first)
  with h show "update_assignment_status L s a caller =
        (Inr [(''message'', Str ''Assignment status updated successfully'')],
         s\<lparr>assignments_collection := xs @ dict_set d ''status'' (Str (status a)) # ys\<rparr>)"
    by (simp add: update_assignment_status_def dict_item_def)
next
  show "map_of (dict_set d ''status'' (Str (status a))) ''status'' = Some (Str (status a))"
    by simp
qed

theorem status_update_guard_witness:
  "update_assignment_status demo_lib demo_db \<lparr>assignment_id = ''11111'', status = ''accepted''\<rparr> bob =
     (Inl (HTTPException 403 ''Not authorized to accept assignments.''), demo_db)
   \<and> assignments_collection (snd (update_assignment_status demo_lib demo_db
        \<lparr>assignment_id = ''11111'', status = ''accepted''\<rparr> alice)) =
      [essay 4, dict_set (essay 5) ''status'' (Str ''accepted'')]"
  using status_update_guard [of bob "Str ''user''" demo_lib demo_db
      "\<lparr>assignment_id = ''11111'', status = ''accepted''\<rparr>" 5 "[essay 4]" "essay 5" "[]"]
    status_update_guard [of alice "Str ''user''" demo_lib demo_db
      "\<lparr>assignment_id = ''11111'', status = ''accepted''\<rparr>" 5 "[essay 4]" "essay 5" "[]"]
  by (simp add: demo_db_def alice_def bob_def essay_def demo_lib_def HTTP_403_FORBIDDEN_def)

subsection \<open>C6: uploading an assignment\<close>

text \<open>
  Claim C6. In a well-formed user collection, \<open>upload_assignment\<close> raises 404 and leaves
  the store unchanged when no stored user with role "admin" has the given name. When one
  has, it appends exactly one assignment, with status "pending", the current time as
  timestamp, the caller's identifier as \<open>user_id\<close> and the admin's as \<open>admin_id\<close>.
\<close>

theorem upload_checks_admin:
  assumes "wf_users (users_collection s)"
  shows "((\<forall>d\<in>set (users_collection s).
             \<not> (map_of d ''username'' = Some (Str (admin a)) \<and> map_of d ''role'' = Some (Str ''admin''))) \<longrightarrow>
          upload_assignment L now oid s a caller =
            (Inl (HTTPException HTTP_404_NOT_FOUND
                   (''Admin '' @ [CHR 0x27] @ admin a @ [CHR 0x27] @ '' not found.'')), s))
       \<and> (d \<in> set (users_collection s) \<and> map_of d ''username'' = Some (Str (admin a))
            \<and> map_of d ''role'' = Some (Str ''admin'') \<and> map_of d ''_id'' = Some aid
            \<and> map_of caller ''_id'' = Some cid \<longrightarrow>
          upload_assignment L now oid s a caller =
            (Inr [(''id'', Str (py_str L (ObjectId oid))),
                  (''message'', Str ''Assignment uploaded successfully'')],
             s\<lparr>assignments_collection := assignments_collection s @
                  [[(''_id'', ObjectId oid), (''user_id'', cid), (''userId'', Str (userId a)),
                    (''task'', Str (task a)), (''admin_id'', aid), (''admin'', Str (admin a)),
                    (''status'', Str ''pending''), (''timestamp'', Datetime now)]]\<rparr>))"
  using upload_no_admin [OF assms, of a L now oid caller] upload_admin [OF assms, of d a aid caller cid L now oid]
  by (simp add: admin_not_found_def)

theorem upload_checks_admin_witness:
  "upload_assignment demo_lib 1000 6 demo_db \<lparr>userId = ''bob'', task = ''essay'', admin = ''bob''\<rparr> bob =
     (Inl (HTTPException 404 (''Admin '' @ [CHR 0x27] @ ''bob'' @ [CHR 0x27] @ '' not found.'')), demo_db)
   \<and> assignments_collection (snd (upload_assignment demo_lib 1000 6 demo_db
         \<lparr>userId = ''bob'', task = ''essay'', admin = ''alice''\<rparr> bob)) =
       [essay 4, essay 5,
        [(''_id'', ObjectId 6), (''user_id'', ObjectId 2), (''userId'', Str ''bob''),
         (''task'', Str ''essay''), (''admin_id'', ObjectId 1), (''admin'', Str ''alice''),
         (''status'', Str ''pending''), (''timestamp'', Datetime 1000)]]"
proof -
  have wf: "wf_users (users_collection demo_db)"
    by (simp add: wf_users_def user_ok_def has_str_def has_oid_def demo_db_def alice_def bob_def)
  show ?thesis
    using upload_checks_admin [OF wf, of "\<lparr>userId = ''bob'', task = ''essay'', admin = ''bob''\<rparr>"
        demo_lib 1000 6 bob alice "ObjectId 1" "ObjectId 2"]
      upload_checks_admin [OF wf, of "\<lparr>userId = ''bob'', task = ''essay'', admin = ''alice''\<rparr>"
        demo_lib 1000 6 bob alice "ObjectId 1" "ObjectId 2"]
    by (simp add: demo_db_def alice_def bob_def HTTP_404_NOT_FOUND_def)
qed

subsection \<open>C7: listing the admins\<close>

text \<open>
  Claim C7. \<open>get_admins\<close> raises 404 "No admins found." exactly when no stored user has
  role "admin". Otherwise, on well-formed user documents, it returns the identifier and
  the username of every admin, in store order.
\<close>

theorem get_admins_not_found:
  "(get_admins L s = Inl (HTTPException HTTP_404_NOT_FOUND ''No admins found.'')
      \<longleftrightarrow> filter (\<lambda>d. map_of d ''role'' = Some (Str ''admin'')) (users_collection s) = [])
   \<and> (filter (\<lambda>d. map_of d ''role'' = Some (Str ''admin'')) (users_collection s) \<noteq> []
        \<and> list_all user_ok (users_collection s) \<longrightarrow>
      get_admins L s =
        Inr (''admins'',
             map (admin_view L)
               (filter (\<lambda>d. map_of d ''role'' = Some (Str ''admin'')) (users_collection s))))"
proof (intro conjI impI iffI)
  assume "get_admins L s = Inl (HTTPException HTTP_404_NOT_FOUND ''No admins found.'')"
  then show "filter (\<lambda>d. map_of d ''role'' = Some (Str ''admin'')) (users_collection s) = []"
    by (auto simp: get_admins_def Let_def split: if_splits sum.splits
        dest!: collect_error admin_entry_error)
next
  assume "filter (\<lambda>d. map_of d ''role'' = Some (Str ''admin'')) (users_collection s) = []"
  then show "get_admins L s = Inl (HTTPException HTTP_404_NOT_FOUND ''No admins found.'')"
    by (simp add: get_admins_def)
next
  assume h: "filter (\<lambda>d. map_of d ''role'' = Some (Str ''admin'')) (users_collection s) \<noteq> []
        \<and> list_all user_ok (users_collection s)"
  then have "collect (admin_entry L)
               (filter (\<lambda>d. map_of d ''role'' = Some (Str ''admin'')) (users_collection s)) =
             Inr (map (admin_view L)
               (filter (\<lambda>d. map_of d ''role'' = Some (Str ''admin'')) (users_collection s)))"
    by (intro collect_map) (auto simp: list_all_iff admin_entry_view)
  with h show "get_admins L s =
        Inr (''admins'',
             map (admin_view L)
               (filter (\<lambda>d. map_of d ''role'' = Some (Str ''admin'')) (users_collection s)))"
    by (simp add: get_admins_def)
qed

theorem get_admins_not_found_witness:
  "get_admins demo_lib (demo_db\<lparr>users_collection := [bob]\<rparr>) = Inl (HTTPException 404 ''No admins found.'')
   \<and> get_admins demo_lib demo_db = Inr (''admins'', [[(''id'', Str ''1''), (''username'', Str ''alice'')]])"
  using get_admins_not_found [of demo_lib "demo_db\<lparr>users_collection := [bob]\<rparr>"]
    get_admins_not_found [of demo_lib demo_db]
  by (simp add: demo_db_def alice_def bob_def HTTP_404_NOT_FOUND_def user_ok_def has_str_def
      has_oid_def admin_view_def dict_get_def demo_lib_def)

subsection \<open>C8: listing the assignments\<close>

text \<open>
  Claim C8. For an admin caller and assignments that have the listed fields: with a
  non-empty admin filter, \<open>get_assignments_for_admin\<close> returns the first 100 stored
  assignments whose \<open>admin\<close> field equals the filter, whoever the caller is; with no
  filter, or with the empty string as filter, it returns the first 100 assignments whose
  \<open>admin_id\<close> equals the caller's identifier.
\<close>

theorem listing_first_hundred:
  assumes "map_of caller ''role'' = Some (Str ''admin'')"
    and "list_all assignment_ok (assignments_collection s)"
  shows "(name \<noteq> [] \<longrightarrow>
          get_assignments_for_admin L s caller (Some name) =
            Inr (''assignments'',
                 map (assignment_view L)
                   (take 100 (filter (\<lambda>d. map_of d ''admin'' = Some (Str name))
                      (assignments_collection s)))))
       \<and> (map_of caller ''_id'' = Some (ObjectId i) \<longrightarrow>
          get_assignments_for_admin L s caller None =
            Inr (''assignments'',
                 map (assignment_view L)
                   (take 100 (filter (\<lambda>d. map_of d ''admin_id'' = Some (ObjectId i))
                      (assignments_collection s))))
          \<and> get_assignments_for_admin L s caller (Some []) =
              get_assignments_for_admin L s caller None)"
  using listing_by_name [OF assms, of name L] listing_by_caller [OF assms, of i None L]
    listing_by_caller [OF assms, of i "Some []" L]
  by simp

theorem listing_first_hundred_witness:
  "get_assignments_for_admin demo_lib demo_db alice (Some ''alice'') =
     Inr (''assignments'', [assignment_view demo_lib (essay 4), assignment_view demo_lib (essay 5)])
   \<and> get_assignments_for_admin demo_lib demo_db alice None =
     Inr (''assignments'', [assignment_view demo_lib (essay 4), assignment_view demo_lib (essay 5)])"
proof -
  have r: "map_of alice ''role'' = Some (Str ''admin'')" by (simp add: alice_def)
  have ok: "list_all assignment_ok (assignments_collection demo_db)"
    using demo_assignments_ok [of "[4, 5]"] by (simp add: demo_db_def)
  show ?thesis
    using listing_first_hundred [OF r ok, where name = "''alice''" and i = 1 and L = demo_lib]
    by (simp add: demo_db_def essay_admin essay_admin_id) (simp add: alice_def)
qed

text \<open>
  As stated (all matching assignments; any given filter) the claim fails: of 101
  assignments tagged to \<open>alice\<close> the listing returns 100, and the empty filter selects by
  the caller's identifier, not by the empty admin name.
\<close>

theorem listing_all_counterexample:
  "length (filter (\<lambda>d. map_of d ''admin'' = Some (Str ''alice''))
             (assignments_collection big_db)) = 101
   \<and> get_assignments_for_admin demo_lib big_db alice (Some ''alice'') =
       Inr (''assignments'', map (assignment_view demo_lib) (map essay [0..<100]))
   \<and> get_assignments_for_admin demo_lib big_db alice (Some ''alice'') \<noteq>
       Inr (''assignments'',
            map (assignment_view demo_lib)
              (filter (\<lambda>d. map_of d ''admin'' = Some (Str ''alice''))
                 (assignments_collection big_db)))
   \<and> filter (\<lambda>d. map_of d ''admin'' = Some (Str [])) (assignments_collection nameless_db) =
       [nameless]
   \<and> get_assignments_for_admin demo_lib nameless_db alice (Some []) = Inr (''assignments'', [])"
proof -
  have r: "map_of alice ''role'' = Some (Str ''admin'')" by (simp add: alice_def)
  have ok: "list_all assignment_ok (assignments_collection big_db)"
    using demo_assignments_ok [of "[0..<101]"] by (simp add: big_db_def)
  have all: "filter (\<lambda>d. map_of d ''admin'' = Some (Str ''alice''))
               (assignments_collection big_db) = map essay [0..<101]"
    by (simp add: big_db_def filter_essays)
  have hundred: "take 100 (map essay [0..<101]) = map essay [0..<100]"
    by (simp add: take_map)
  have res: "get_assignments_for_admin demo_lib big_db alice (Some ''alice'') =
       Inr (''assignments'', map (assignment_view demo_lib) (map essay [0..<100]))"
    using listing_by_name [OF r ok, of "''alice''" demo_lib] by (simp only: all hundred) simp
  have len: "length (map (assignment_view demo_lib) (map essay [0..<100])) \<noteq>
             length (map (assignment_view demo_lib) (map essay [0..<101]))"
    by simp
  then have ne: "map (assignment_view demo_lib) (map essay [0..<100]) \<noteq>
                 map (assignment_view demo_lib) (map essay [0..<101])"
    by metis
  have ok2: "list_all assignment_ok (assignments_collection nameless_db)"
    by (simp add: nameless_db_def nameless_def assignment_ok_def)
  have i: "map_of alice ''_id'' = Some (ObjectId 1)" by (simp add: alice_def)
  have empty: "get_assignments_for_admin demo_lib nameless_db alice (Some []) =
                 Inr (''assignments'', [])"
    using listing_by_caller [OF r ok2 i, of "Some []" demo_lib]
    by (simp add: nameless_db_def nameless_def)
  have one: "filter (\<lambda>d. map_of d ''admin'' = Some (Str [])) (assignments_collection nameless_db) =
       [nameless]"
    by (simp add: nameless_db_def nameless_def)
  show ?thesis
    using res ne empty one by (simp add: all)
qed

subsection \<open>C9: login and the issued token\<close>

text \<open>
  Claim C9. In a well-formed user collection, \<open>login_user\<close> with the username of a
  stored account and a password that verifies against its hash succeeds. The token is the
  encoding of the claims \<open>sub\<close> = the login username and \<open>exp\<close> = the current time plus
  30 minutes, whatever \<open>ACCESS_TOKEN_EXPIRE_MINUTES\<close> is; when the codec gives back the
  \<open>sub\<close> claim it encoded, \<open>decode_access_token\<close> of the token yields the login username.
  With a password that does not verify, the login raises 401.
\<close>

theorem login_user_token:
  fixes L :: lib and now :: int and s :: db and user :: UserLogin
  defines "payload \<equiv> [(''sub'', Str (username user)),
                        (''exp'', Datetime (now + timedelta_minutes 30))]"
  assumes "wf_users (users_collection s)" and "d \<in> set (users_collection s)"
    and "map_of d ''username'' = Some (Str (username user))"
    and "map_of d ''password'' = Some (Str h)"
  shows "(pwd_verify L (password user) h \<longrightarrow>
            login_user L now s user =
              Inr [(''id'', Str (py_str L (dict_get d ''_id'' Null))),
                   (''username'', Str (username user)),
                   (''access_token'', Str (jwt_encode L payload)),
                   (''token_type'', Str ''bearer'')]
            \<and> login_user (L\<lparr>ACCESS_TOKEN_EXPIRE_MINUTES := m\<rparr>) now s user = login_user L now s user
            \<and> map_of payload ''exp'' = Some (Datetime (now + 30 * 60 * 1000000))
            \<and> (jwt_decode L (jwt_encode L payload) = Inr claims
                 \<and> map_of claims ''sub'' = map_of payload ''sub'' \<longrightarrow>
               decode_access_token L (jwt_encode L payload) = Inr (Some claims)
               \<and> dict_get claims ''sub'' Null = Str (username user)))
       \<and> (\<not> pwd_verify L (password user) h \<longrightarrow>
            login_user L now s user =
              Inl (HTTPException HTTP_401_UNAUTHORIZED ''Invalid username or password''))"
proof -
  have f: "find_one [(''username'', Str (username user))] (users_collection s) = Some d"
    using assms(2-4) by (rule wf_find_one_username)
  from wf_user_okD [OF assms(2,3)] obtain i where i: "map_of d ''_id'' = Some (ObjectId i)"
    by auto
  have ok: "login_user L now s user =
              Inr [(''id'', Str (py_str L (dict_get d ''_id'' Null))),
                   (''username'', Str (username user)),
                   (''access_token'', Str (jwt_encode L payload)),
                   (''token_type'', Str ''bearer'')]" if "pwd_verify L (password user) h"
    using login_found_verified [OF assms(4,5) i that, of now]
    by (simp add: login_user_def f payload_def dict_get_def i)
  have bad: "login_user L now s user =
              Inl (HTTPException HTTP_401_UNAUTHORIZED ''Invalid username or password'')"
    if "\<not> pwd_verify L (password user) h"
    using login_found_rejected [OF assms(5) that, of now]
    by (simp add: login_user_def f invalid_login_def)
  have same: "login_user (L\<lparr>ACCESS_TOKEN_EXPIRE_MINUTES := m\<rparr>) now s user = login_user L now s user"
    by (simp add: login_user_def login_found_lifetime)
  have ex: "map_of payload ''exp'' = Some (Datetime (now + 30 * 60 * 1000000))"
    by (simp add: payload_def timedelta_minutes_def)
  have dec: "decode_access_token L (jwt_encode L payload) = Inr (Some claims)
               \<and> dict_get claims ''sub'' Null = Str (username user)"
    if "jwt_decode L (jwt_encode L payload) = Inr claims"
      "map_of claims ''sub'' = map_of payload ''sub''"
    using that by (simp add: decode_access_token_def dict_get_def payload_def)
  show ?thesis using ok bad same ex dec by blast
qed

theorem login_user_token_witness:
  "login_user demo_lib 1000 demo_db \<lparr>username = ''bob'', password = ''pw2''\<rparr> =
     Inr [(''id'', Str (py_str demo_lib (ObjectId 2))), (''username'', Str ''bob''),
          (''access_token'', Str ''jwt.bob''), (''token_type'', Str ''bearer'')]
   \<and> decode_access_token demo_lib ''jwt.bob'' = Inr (Some [(''sub'', Str ''bob'')])
   \<and> login_user demo_lib 1000 demo_db \<lparr>username = ''bob'', password = ''nope''\<rparr> =
     Inl (HTTPException 401 ''Invalid username or password'')"
proof -
  have wf: "wf_users (users_collection demo_db)"
    by (simp add: wf_users_def user_ok_def has_str_def has_oid_def demo_db_def alice_def bob_def)
  have d: "bob \<in> set (users_collection demo_db)" by (simp add: demo_db_def)
  have u: "map_of bob ''username'' = Some (Str (username \<lparr>username = ''bob'', password = ''pw2''\<rparr>))"
    by (simp add: bob_def)
  have u': "map_of bob ''username'' = Some (Str (username \<lparr>username = ''bob'', password = ''nope''\<rparr>))"
    by (simp add: bob_def)
  have h: "map_of bob ''password'' = Some (Str ''$2b$pw2'')" by (simp add: bob_def)
  have v: "pwd_verify demo_lib ''pw2'' ''$2b$pw2''" "\<not> pwd_verify demo_lib ''nope'' ''$2b$pw2''"
    by (simp_all add: demo_lib_simps)
  have enc: "jwt_encode demo_lib [(''sub'', Str ''bob''), (''exp'', Datetime (1000 + timedelta_minutes 30))]
               = ''jwt.bob''"
    by (simp add: demo_lib_simps)
  have dec: "jwt_decode demo_lib ''jwt.bob'' = Inr [(''sub'', Str ''bob'')]"
    by (simp add: demo_lib_simps)
  have i: "dict_get bob ''_id'' Null = ObjectId 2" by (simp add: bob_def dict_get_def)
  show ?thesis
    using login_user_token [OF wf d u h, where L = demo_lib and now = 1000 and m = 30
        and claims = "[(''sub'', Str ''bob'')]"]
      login_user_token [OF wf d u' h, where L = demo_lib and now = 1000 and m = 30
        and claims = "[(''sub'', Str ''bob'')]"]
    by (simp add: v enc dec i HTTP_401_UNAUTHORIZED_def)
qed

subsection \<open>C10: registered accounts are active\<close>

text \<open>
  Claim C10. The document that a successful registration stores consists of the generated
  \<open>_id\<close> and the fields \<open>username\<close>, \<open>password\<close> and \<open>role\<close> of the new document, with
  no \<open>is_active\<close> field, and \<open>get_current_active_user\<close> returns it unchanged.
\<close>

theorem registered_account_active:
  fixes L :: lib and oid :: nat and s :: db and user :: UserCreate
  defines "new_user \<equiv> [(''username'', Str (username user)),
                          (''password'', Str (get_password_hash L (password user))),
                          (''role'', Str ''user'')]"
    and "new_admin \<equiv> [(''username'', Str (username user)),
                          (''password'', Str (get_password_hash L (password user))),
                          (''role'', Str ''admin'')]"
  assumes "\<forall>d\<in>set (users_collection s). map_of d ''username'' \<noteq> Some (Str (username user))"
  shows "users_collection (snd (register_user L oid s user)) =
           users_collection s @ [(''_id'', ObjectId oid) # new_user]
       \<and> users_collection (snd (register_admin L oid s user)) =
           users_collection s @ [(''_id'', ObjectId oid) # new_admin]
       \<and> map fst new_user = [''username'', ''password'', ''role'']
       \<and> map fst new_admin = [''username'', ''password'', ''role'']
       \<and> get_current_active_user ((''_id'', ObjectId oid) # new_user) =
           Inr ((''_id'', ObjectId oid) # new_user)
       \<and> get_current_active_user ((''_id'', ObjectId oid) # new_admin) =
           Inr ((''_id'', ObjectId oid) # new_admin)"
  unfolding new_user_def new_admin_def
  by (simp add: register_user_free [OF assms(3)] register_admin_free [OF assms(3)]
      get_current_active_user_def dict_get_def get_password_hash_def)

theorem registered_account_active_witness:
  "users_collection (snd (register_user demo_lib 9 demo_db \<lparr>username = ''dave'', password = ''x''\<rparr>)) =
     [alice, bob, [(''_id'', ObjectId 9), (''username'', Str ''dave''), (''password'', Str ''$2b$x''),
                   (''role'', Str ''user'')]]
   \<and> get_current_active_user [(''_id'', ObjectId 9), (''username'', Str ''dave''),
         (''password'', Str ''$2b$x''), (''role'', Str ''user'')] =
       Inr [(''_id'', ObjectId 9), (''username'', Str ''dave''), (''password'', Str ''$2b$x''),
            (''role'', Str ''user'')]"
  using registered_account_active [of demo_db "\<lparr>username = ''dave'', password = ''x''\<rparr>" demo_lib 9]
  by (simp add: demo_db_def alice_def bob_def get_password_hash_def demo_lib_def)

end
